theory Spec2Isabelle
  imports Complex_Main
begin

section \<open>Data model of \<open>tefs/utils.py\<close>\<close>

text \<open>
  The values an iteration record can hold under a key. A score is a Python number
  (\<open>float\<close> or \<open>int\<close>), modelled as a real: the code only compares scores, and
  the floating-point values that are not numbers on the real line (\<open>nan\<close>, \<open>inf\<close>)
  are left out. A \<open>feature_scores\<close> dictionary is the list of its items in insertion
  order (feature index, score), the keys of a dictionary being pairwise different.
  \<open>PStr\<close> and \<open>PNone\<close> stand for the values that are neither a number nor a
  dictionary.
\<close>

datatype pyval = PNum real | PDict "(int \<times> real) list" | PStr string | PNone

text \<open>\<open>IterationResult = Dict[str, Union[Dict[int, float], float]]\<close>\<close>

type_synonym IterationResult = "string \<rightharpoonup> pyval"

text \<open>The exceptions the two functions can raise.\<close>

datatype error =
    AssertionError string
  | KeyError string
  | ValueError
  | IndexError
  | TypeError
  | AttributeError

text \<open>
  What a call returns: \<open>None\<close> (a function body left without \<open>return\<close>),
  \<open>list(d.keys())\<close> (the keys in the dictionary's order), or \<open>list(set(a) - set(b))\<close>
  (the elements of a set, in an order Python does not fix).
\<close>

datatype pyret = RNone | ListOfKeys "int list" | ListOfSet "int set"

fun features :: "pyret \<Rightarrow> int set" where
  "features RNone = {}"
| "features (ListOfKeys ks) = set ks"
| "features (ListOfSet S) = S"

text \<open>An iteration record with both keys present.\<close>

definition iteration_result :: "pyval \<Rightarrow> pyval \<Rightarrow> IterationResult" where
  "iteration_result te fs = [''TE'' \<mapsto> te, ''feature_scores'' \<mapsto> fs]"

section \<open>Python primitives\<close>

text \<open>\<open>d[k]\<close> on a dictionary\<close>

definition getitem :: "IterationResult \<Rightarrow> string \<Rightarrow> error + pyval" where
  "getitem d k = (case d k of None \<Rightarrow> Inl (KeyError k) | Some v \<Rightarrow> Inr v)"

text \<open>\<open>v.keys()\<close> and \<open>v.values()\<close>: only a dictionary has them\<close>

fun py_keys :: "pyval \<Rightarrow> error + int list" where
  "py_keys (PDict fs) = Inr (map fst fs)"
| "py_keys (PNum x) = Inl AttributeError"
| "py_keys (PStr s) = Inl AttributeError"
| "py_keys PNone = Inl AttributeError"

text \<open>\<open>len(v)\<close>\<close>

fun py_len :: "pyval \<Rightarrow> error + nat" where
  "py_len (PDict fs) = Inr (length fs)"
| "py_len (PStr s) = Inr (length s)"
| "py_len (PNum x) = Inl TypeError"
| "py_len PNone = Inl TypeError"

text \<open>\<open>min(xs)\<close> and \<open>max(xs)\<close> raise \<open>ValueError\<close> on an empty sequence\<close>

fun py_min :: "real list \<Rightarrow> error + real" where
  "py_min [] = Inl ValueError"
| "py_min (x # xs) = Inr (fold min xs x)"

fun py_max :: "real list \<Rightarrow> error + real" where
  "py_max [] = Inl ValueError"
| "py_max (x # xs) = Inr (fold max xs x)"

text \<open>\<open>str(n)\<close> of a non-negative integer, as the f-string of the assertion message prints it\<close>

fun str_nat :: "nat \<Rightarrow> string" where
  "str_nat n =
     (if n < 10 then [''0123456789'' ! n]
      else str_nat (n div 10) @ [''0123456789'' ! (n mod 10)])"

declare str_nat.simps [simp del]

section \<open>\<open>select_features\<close>\<close>

text \<open>
  The local variables that live across iterations of the loop, and how a scan of the
  records ends: by an exception, by a \<open>return\<close> inside the loop, or by reaching the end
  of \<open>results\<close>.
\<close>

record locals =
  stop :: bool
  initial_features :: "int list option"

datatype scan = Raised error | Returned pyret | Exhausted locals

text \<open>
  The second \<open>if\<close>/\<open>elif\<close> of the loop body: whether the sign of the feature scores
  sets \<open>stop\<close>. \<open>and\<close> evaluates \<open>min\<close> or \<open>max\<close> only when the direction matches.
\<close>

definition sign_stop :: "string \<Rightarrow> (int \<times> real) list \<Rightarrow> error + bool" where
  "sign_stop direction fs =
     (if direction = ''backward'' then
        (case py_min (map snd fs) of Inl e \<Rightarrow> Inl e | Inr m \<Rightarrow> Inr (m > 0))
      else if direction = ''forward'' then
        (case py_max (map snd fs) of Inl e \<Rightarrow> Inl e | Inr m \<Rightarrow> Inr (m < 0))
      else Inr False)"

text \<open>The \<open>for iteration in results\<close> loop (lines 35 to 66).\<close>

fun select_features_loop ::
  "real \<Rightarrow> string \<Rightarrow> locals \<Rightarrow> IterationResult list \<Rightarrow> scan" where
  "select_features_loop threshold direction l [] = Exhausted l"
| "select_features_loop threshold direction l (iteration # rest) =
     (case getitem iteration ''TE'' of
        Inl e \<Rightarrow> Raised e
      | Inr (PDict d) \<Rightarrow> Raised (AssertionError ''TE score must be a number'')
      | Inr (PStr s) \<Rightarrow> Raised (AssertionError ''TE score must be a number'')
      | Inr PNone \<Rightarrow> Raised (AssertionError ''TE score must be a number'')
      | Inr (PNum te) \<Rightarrow>
         (case getitem iteration ''feature_scores'' of
            Inl e \<Rightarrow> Raised e
          | Inr (PNum x) \<Rightarrow> Raised (AssertionError ''feature_scores must be a dictionary'')
          | Inr (PStr s) \<Rightarrow> Raised (AssertionError ''feature_scores must be a dictionary'')
          | Inr PNone \<Rightarrow> Raised (AssertionError ''feature_scores must be a dictionary'')
          | Inr (PDict fs) \<Rightarrow>
             (let initial = (case initial_features l of
                               None \<Rightarrow> map fst fs
                             | Some ks \<Rightarrow> ks);
                  stop1 = (if te > threshold then True else stop l)
              in case sign_stop direction fs of
                   Inl e \<Rightarrow> Raised e
                 | Inr s \<Rightarrow>
                    (let stop2 = (if s then True else stop1);
                         l' = \<lparr>stop = stop2, initial_features = Some initial\<rparr>
                     in if stop2 then
                          (if direction = ''backward'' then
                             Returned (ListOfKeys (map fst fs))
                           else if direction = ''forward'' then
                             Returned (ListOfSet (set initial - set (map fst fs)))
                           else select_features_loop threshold direction l' rest)
                        else select_features_loop threshold direction l' rest))))"

text \<open>The whole function. The \<open>verbose\<close> prints do not change what is returned.\<close>

definition select_features ::
  "IterationResult list \<Rightarrow> real \<Rightarrow> string \<Rightarrow> error + pyret" where
  "select_features results threshold direction =
     (if direction \<noteq> ''forward'' \<and> direction \<noteq> ''backward'' then
        Inl (AssertionError ''Invalid direction'')
      else
        case select_features_loop threshold direction
               \<lparr>stop = False, initial_features = None\<rparr> results of
          Raised e \<Rightarrow> Inl e
        | Returned v \<Rightarrow> Inr v
        | Exhausted l \<Rightarrow>
           (if direction = ''backward'' then
              (case results of
                 [] \<Rightarrow> Inl IndexError
               | r # rs \<Rightarrow>
                  (case getitem (last results) ''feature_scores'' of
                     Inl e \<Rightarrow> Inl e
                   | Inr v \<Rightarrow>
                      (case py_keys v of
                         Inl e \<Rightarrow> Inl e
                       | Inr ks \<Rightarrow> Inr (ListOfKeys ks))))
            else if direction = ''forward'' then
              (case initial_features l of
                 None \<Rightarrow> Inl TypeError
               | Some ks \<Rightarrow> Inr (ListOfKeys ks))
            else Inr RNone))"

section \<open>\<open>select_n_features\<close>\<close>

text \<open>The backward loop (lines 107 to 110); leaving it returns \<open>None\<close>.\<close>

fun select_n_backward_loop :: "int \<Rightarrow> IterationResult list \<Rightarrow> error + pyret" where
  "select_n_backward_loop n [] = Inr RNone"
| "select_n_backward_loop n (iteration # rest) =
     (case getitem iteration ''feature_scores'' of
        Inl e \<Rightarrow> Inl e
      | Inr v \<Rightarrow>
         (case py_keys v of
            Inl e \<Rightarrow> Inl e
          | Inr features_indexes \<Rightarrow>
             if int (length features_indexes) = n then Inr (ListOfKeys features_indexes)
             else select_n_backward_loop n rest))"

text \<open>The forward loop and the \<open>return\<close> after it (lines 114 to 127).\<close>

fun select_n_forward_loop ::
  "int \<Rightarrow> nat \<Rightarrow> int list option \<Rightarrow> IterationResult list \<Rightarrow> error + pyret" where
  "select_n_forward_loop n num_total_features initial [] =
     (case initial of None \<Rightarrow> Inl TypeError | Some ks \<Rightarrow> Inr (ListOfKeys ks))"
| "select_n_forward_loop n num_total_features initial (iteration # rest) =
     (case getitem iteration ''feature_scores'' of
        Inl e \<Rightarrow> Inl e
      | Inr v \<Rightarrow>
         (case py_keys v of
            Inl e \<Rightarrow> Inl e
          | Inr features_indexes \<Rightarrow>
             (let initial' = (case initial of
                                None \<Rightarrow> features_indexes
                              | Some ks \<Rightarrow> ks)
              in if int (length features_indexes) = int num_total_features - n then
                   Inr (ListOfSet (set initial' - set features_indexes))
                 else select_n_forward_loop n num_total_features (Some initial') rest)))"

definition select_n_features ::
  "IterationResult list \<Rightarrow> int \<Rightarrow> string \<Rightarrow> error + pyret" where
  "select_n_features results n direction =
     (if direction \<noteq> ''forward'' \<and> direction \<noteq> ''backward'' then
        Inl (AssertionError ''Invalid direction'')
      else
        case results of
          [] \<Rightarrow> Inl IndexError
        | first # others \<Rightarrow>
           (case getitem first ''feature_scores'' of
              Inl e \<Rightarrow> Inl e
            | Inr v \<Rightarrow>
               (case py_len v of
                  Inl e \<Rightarrow> Inl e
                | Inr num_total_features \<Rightarrow>
                   if \<not> n \<le> int num_total_features then
                     Inl (AssertionError (''n must be <= '' @ str_nat num_total_features))
                   else if \<not> n > 0 then
                     Inl (AssertionError ''n must be > 0'')
                   else if direction = ''backward'' then
                     select_n_backward_loop n results
                   else if direction = ''forward'' then
                     select_n_forward_loop n num_total_features None results
                   else Inr RNone)))"

section \<open>Notions used to state the properties\<close>

text \<open>The key list of a record's \<open>feature_scores\<close> dictionary.\<close>

definition keys_of :: "IterationResult \<Rightarrow> int list" where
  "keys_of r = (case r ''feature_scores'' of Some (PDict fs) \<Rightarrow> map fst fs | _ \<Rightarrow> [])"

text \<open>
  A record that passes the loop body without setting \<open>stop\<close>: its \<open>TE\<close> is a number not
  above the threshold, its \<open>feature_scores\<close> is a non-empty dictionary, and the sign
  condition of the direction does not hold (the minimum is not strictly positive for
  \<open>backward\<close>, the maximum not strictly negative for \<open>forward\<close>).
\<close>

definition no_stop :: "real \<Rightarrow> string \<Rightarrow> IterationResult \<Rightarrow> bool" where
  "no_stop threshold direction r =
     (case r ''TE'' of
        Some (PNum te) \<Rightarrow>
          (case r ''feature_scores'' of
             Some (PDict fs) \<Rightarrow>
               fs \<noteq> [] \<and> \<not> te > threshold \<and>
               (if direction = ''backward'' then \<not> Min (snd ` set fs) > 0
                else \<not> Max (snd ` set fs) < 0)
           | _ \<Rightarrow> False)
      | _ \<Rightarrow> False)"

section \<open>Auxiliary facts\<close>

lemma py_min_Cons: "py_min (x # xs) = Inr (Min (set (x # xs)))"
  by (simp only: py_min.simps Min.set_eq_fold)

lemma py_min_Min: "xs \<noteq> [] \<Longrightarrow> py_min xs = Inr (Min (set xs))"
  by (cases xs) (simp, simp only: py_min_Cons)

lemma py_max_Cons: "py_max (x # xs) = Inr (Max (set (x # xs)))"
  by (simp only: py_max.simps Max.set_eq_fold)

lemma py_max_Max: "xs \<noteq> [] \<Longrightarrow> py_max xs = Inr (Max (set xs))"
  by (cases xs) (simp, simp only: py_max_Cons)

lemma sign_stop_backward:
  "fs \<noteq> [] \<Longrightarrow> sign_stop ''backward'' fs = Inr (0 < Min (snd ` set fs))"
  by (simp add: sign_stop_def py_min_Min)

lemma sign_stop_forward:
  "fs \<noteq> [] \<Longrightarrow> sign_stop ''forward'' fs = Inr (Max (snd ` set fs) < 0)"
  by (simp add: sign_stop_def py_max_Max)

lemma sign_stop_empty:
  "direction = ''forward'' \<or> direction = ''backward'' \<Longrightarrow> sign_stop direction [] = Inl ValueError"
  by (auto simp add: sign_stop_def)

lemma getitem_iteration_result [simp]:
  "getitem (iteration_result te fs) ''TE'' = Inr te"
  "getitem (iteration_result te fs) ''feature_scores'' = Inr fs"
  by (simp_all add: getitem_def iteration_result_def)

lemma getitem_Inr: "getitem r k = Inr v \<longleftrightarrow> r k = Some v"
  by (simp add: getitem_def split: option.splits)

text \<open>One pass of the loop body over a well-formed record.\<close>

lemma loop_step:
  assumes "getitem r ''TE'' = Inr (PNum te)"
    and "getitem r ''feature_scores'' = Inr (PDict fs)"
    and "sign_stop direction fs = Inr s"
    and "direction = ''forward'' \<or> direction = ''backward''"
  shows "select_features_loop threshold direction l (r # rest) =
    (if threshold < te \<or> stop l \<or> s then
       (if direction = ''backward'' then Returned (ListOfKeys (map fst fs))
        else Returned (ListOfSet (set (case initial_features l of None \<Rightarrow> map fst fs | Some ks \<Rightarrow> ks) - set (map fst fs))))
     else select_features_loop threshold direction
            \<lparr>stop = False, initial_features = Some (case initial_features l of None \<Rightarrow> map fst fs | Some ks \<Rightarrow> ks)\<rparr> rest)"
  using assms by (auto simp add: Let_def)

lemma list_case_nonempty: "xs \<noteq> [] \<Longrightarrow> (case xs of [] \<Rightarrow> a | y # ys \<Rightarrow> b) = b"
  by (cases xs) simp_all

lemma no_stopD:
  assumes "no_stop threshold direction r"
  shows "\<exists>te fs. getitem r ''TE'' = Inr (PNum te)
    \<and> getitem r ''feature_scores'' = Inr (PDict fs)
    \<and> fs \<noteq> [] \<and> \<not> threshold < te
    \<and> (direction = ''backward'' \<longrightarrow> \<not> 0 < Min (snd ` set fs))
    \<and> (direction \<noteq> ''backward'' \<longrightarrow> \<not> Max (snd ` set fs) < 0)
    \<and> keys_of r = map fst fs"
proof -
  from assms obtain te where te: "r ''TE'' = Some (PNum te)"
    by (auto simp add: no_stop_def split: option.splits pyval.splits)
  with assms obtain fs where fs: "r ''feature_scores'' = Some (PDict fs)"
    by (auto simp add: no_stop_def split: option.splits pyval.splits)
  from assms te fs show ?thesis
    by (simp add: no_stop_def getitem_def keys_of_def del: Min_gr_iff Max_less_iff
        split: if_splits)
qed

text \<open>A record that sets no stop is passed over; only the initial features are captured.\<close>

lemma loop_no_stop_step:
  assumes "no_stop threshold direction r"
    and "direction = ''forward'' \<or> direction = ''backward''"
    and "stop l = False"
  shows "select_features_loop threshold direction l (r # rest) =
         select_features_loop threshold direction
           \<lparr>stop = False,
            initial_features =
              Some (case initial_features l of None \<Rightarrow> keys_of r | Some ks \<Rightarrow> ks)\<rparr> rest"
proof -
  from assms(1) obtain te fs where r: "getitem r ''TE'' = Inr (PNum te)"
    "getitem r ''feature_scores'' = Inr (PDict fs)"
    "fs \<noteq> []" "\<not> threshold < te"
    "direction = ''backward'' \<longrightarrow> \<not> 0 < Min (snd ` set fs)"
    "direction \<noteq> ''backward'' \<longrightarrow> \<not> Max (snd ` set fs) < 0"
    "keys_of r = map fst fs"
    using no_stopD by blast
  have s: "sign_stop direction fs = Inr False"
  proof (cases "direction = ''backward''")
    case True
    with r(3,5) show ?thesis by (simp add: sign_stop_backward)
  next
    case False
    with assms(2) have "direction = ''forward''" by simp
    with r(3,6) show ?thesis by (simp add: sign_stop_forward)
  qed
  show ?thesis
    using assms(3) r(4,7)
    by (simp del: select_features_loop.simps(2) add: loop_step [OF r(1,2) s assms(2)]
        split: option.splits)
qed

lemma loop_no_stop:
  assumes "\<forall>r\<in>set pre. no_stop threshold direction r"
    and "direction = ''forward'' \<or> direction = ''backward''"
    and "stop l = False"
  shows "select_features_loop threshold direction l (pre @ rest) =
         select_features_loop threshold direction
           (case pre of [] \<Rightarrow> l
            | r # rs \<Rightarrow>
               \<lparr>stop = False,
                initial_features =
                  Some (case initial_features l of None \<Rightarrow> keys_of r | Some ks \<Rightarrow> ks)\<rparr>) rest"
  using assms(1,3)
proof (induction pre arbitrary: l)
  case Nil
  then show ?case by simp
next
  case (Cons r pre)
  from Cons.prems have r: "no_stop threshold direction r"
    and pre: "\<forall>r\<in>set pre. no_stop threshold direction r" by simp_all
  let ?l = "\<lparr>stop = False,
            initial_features =
              Some (case initial_features l of None \<Rightarrow> keys_of r | Some ks \<Rightarrow> ks)\<rparr>"
  have "select_features_loop threshold direction l ((r # pre) @ rest) =
        select_features_loop threshold direction ?l (pre @ rest)"
    using loop_no_stop_step [OF r assms(2) Cons.prems(2)] by simp
  also have "\<dots> = select_features_loop threshold direction
           (case pre of [] \<Rightarrow> ?l
            | r' # rs \<Rightarrow>
               \<lparr>stop = False,
                initial_features =
                  Some (case initial_features ?l of None \<Rightarrow> keys_of r' | Some ks \<Rightarrow> ks)\<rparr>) rest"
    by (rule Cons.IH [OF pre]) simp
  also have "\<dots> = select_features_loop threshold direction ?l rest"
    by (cases pre) simp_all
  finally show ?case by simp
qed

lemma no_stop_iteration_result:
  "no_stop threshold direction (iteration_result (PNum te) (PDict fs)) =
     (fs \<noteq> [] \<and> \<not> threshold < te \<and>
      (if direction = ''backward'' then \<not> 0 < Min (snd ` set fs)
       else \<not> Max (snd ` set fs) < 0))"
  by (simp add: no_stop_def iteration_result_def)

lemma keys_of_iteration_result [simp]:
  "keys_of (iteration_result te (PDict fs)) = map fst fs"
  by (simp add: keys_of_def iteration_result_def)

lemma loop_bad_TE:
  assumes "getitem r ''TE'' = Inr te" and "te \<notin> range PNum"
  shows "select_features_loop threshold direction l (r # post) =
         Raised (AssertionError ''TE score must be a number'')"
  using assms by (cases te) auto

lemma loop_bad_feature_scores:
  assumes "getitem r ''TE'' = Inr (PNum x)" and "getitem r ''feature_scores'' = Inr fsv"
    and "fsv \<notin> range PDict"
  shows "select_features_loop threshold direction l (r # post) =
         Raised (AssertionError ''feature_scores must be a dictionary'')"
  using assms by (cases fsv) auto

lemma loop_empty_feature_scores:
  assumes "getitem r ''TE'' = Inr (PNum x)" and "getitem r ''feature_scores'' = Inr (PDict [])"
    and "direction = ''forward'' \<or> direction = ''backward''"
  shows "select_features_loop threshold direction l (r # post) = Raised ValueError"
  using assms by (auto simp add: sign_stop_def)

text \<open>A pass of the loop body that does not raise went over a well-formed record.\<close>

lemma loop_not_raised:
  assumes "select_features_loop threshold direction l (r # rest) = res"
    and "\<forall>e. res \<noteq> Raised e"
  shows "\<exists>te fs s. getitem r ''TE'' = Inr (PNum te)
    \<and> getitem r ''feature_scores'' = Inr (PDict fs)
    \<and> sign_stop direction fs = Inr s \<and> keys_of r = map fst fs"
proof -
  from assms obtain v where v: "getitem r ''TE'' = Inr v"
    by (cases "getitem r ''TE''") auto
  with assms obtain te where te: "getitem r ''TE'' = Inr (PNum te)"
    by (cases v) auto
  from assms te obtain w where w: "getitem r ''feature_scores'' = Inr w"
    by (cases "getitem r ''feature_scores''") auto
  with assms te obtain fs where fs: "getitem r ''feature_scores'' = Inr (PDict fs)"
    by (cases w) auto
  from assms te fs obtain s where s: "sign_stop direction fs = Inr s"
    by (cases "sign_stop direction fs") (auto simp add: Let_def)
  from fs have "keys_of r = map fst fs"
    by (simp add: keys_of_def getitem_Inr)
  with te fs s show ?thesis by blast
qed

lemma loop_forward_returned:
  "select_features_loop threshold ''forward'' l rs = Returned v \<Longrightarrow>
   features v \<subseteq> set (case initial_features l of None \<Rightarrow> keys_of (hd rs) | Some ks \<Rightarrow> ks)"
proof (induction rs arbitrary: l)
  case Nil
  then show ?case by simp
next
  case (Cons r rs)
  from loop_not_raised [OF Cons.prems] obtain te fs s
    where r: "getitem r ''TE'' = Inr (PNum te)"
      "getitem r ''feature_scores'' = Inr (PDict fs)"
      "sign_stop ''forward'' fs = Inr s" "keys_of r = map fst fs"
    by auto
  let ?init = "case initial_features l of None \<Rightarrow> map fst fs | Some ks \<Rightarrow> ks"
  have d: "''forward'' = ''forward'' \<or> ''forward'' = ''backward''" by simp
  note step = loop_step [OF r(1,2,3) d, of threshold l rs]
  have init: "set ?init = set (case initial_features l of None \<Rightarrow> keys_of (hd (r # rs)) | Some ks \<Rightarrow> ks)"
    using r(4) by (simp split: option.splits)
  show ?case
  proof (cases "threshold < te \<or> stop l \<or> s")
    case True
    with step Cons.prems have "v = ListOfSet (set ?init - set (map fst fs))"
      by (simp del: select_features_loop.simps(2))
    then have "features v \<subseteq> set ?init" by auto
    with init show ?thesis by simp
  next
    case False
    with step Cons.prems have
      "select_features_loop threshold ''forward''
         \<lparr>stop = False, initial_features = Some ?init\<rparr> rs = Returned v"
      by (simp del: select_features_loop.simps(2))
    from Cons.IH [OF this] have "features v \<subseteq> set ?init" by simp
    with init show ?thesis by simp
  qed
qed

lemma loop_backward_returned:
  "select_features_loop threshold ''backward'' l rs = Returned v \<Longrightarrow>
   \<exists>r\<in>set rs. v = ListOfKeys (keys_of r)"
proof (induction rs arbitrary: l)
  case Nil
  then show ?case by simp
next
  case (Cons r rs)
  from loop_not_raised [OF Cons.prems] obtain te fs s
    where r: "getitem r ''TE'' = Inr (PNum te)"
      "getitem r ''feature_scores'' = Inr (PDict fs)"
      "sign_stop ''backward'' fs = Inr s" "keys_of r = map fst fs"
    by auto
  let ?init = "case initial_features l of None \<Rightarrow> map fst fs | Some ks \<Rightarrow> ks"
  have d: "''backward'' = ''forward'' \<or> ''backward'' = ''backward''" by simp
  note step = loop_step [OF r(1,2,3) d, of threshold l rs]
  show ?case
  proof (cases "threshold < te \<or> stop l \<or> s")
    case True
    with step Cons.prems r(4) have "v = ListOfKeys (keys_of r)"
      by (simp del: select_features_loop.simps(2))
    then show ?thesis by simp
  next
    case False
    with step Cons.prems have
      "select_features_loop threshold ''backward''
         \<lparr>stop = False, initial_features = Some ?init\<rparr> rs = Returned v"
      by (simp del: select_features_loop.simps(2))
    from Cons.IH [OF this] show ?thesis by simp
  qed
qed

lemma loop_exhausted:
  assumes "select_features_loop threshold direction l rs = Exhausted l'"
    and "direction = ''forward'' \<or> direction = ''backward''"
  shows "initial_features l' =
           (case initial_features l of
              Some ks \<Rightarrow> Some ks
            | None \<Rightarrow> (case rs of [] \<Rightarrow> None | r # rest \<Rightarrow> Some (keys_of r)))
       \<and> (\<forall>r\<in>set rs. \<exists>fs. getitem r ''feature_scores'' = Inr (PDict fs)
                               \<and> keys_of r = map fst fs)"
  using assms(1)
proof (induction rs arbitrary: l)
  case Nil
  then show ?case by (simp split: option.splits)
next
  case (Cons r rs)
  from loop_not_raised [OF Cons.prems] obtain te fs s
    where r: "getitem r ''TE'' = Inr (PNum te)"
      "getitem r ''feature_scores'' = Inr (PDict fs)"
      "sign_stop direction fs = Inr s" "keys_of r = map fst fs"
    by auto
  let ?init = "case initial_features l of None \<Rightarrow> map fst fs | Some ks \<Rightarrow> ks"
  note step = loop_step [OF r(1,2,3) assms(2), of threshold l rs]
  have nostop: "\<not> (threshold < te \<or> stop l \<or> s)"
  proof
    assume "threshold < te \<or> stop l \<or> s"
    with step Cons.prems show False
      by (simp del: select_features_loop.simps(2) split: if_splits)
  qed
  with step Cons.prems have
    "select_features_loop threshold direction
       \<lparr>stop = False, initial_features = Some ?init\<rparr> rs = Exhausted l'"
    by (simp del: select_features_loop.simps(2))
  from Cons.IH [OF this] have ih: "initial_features l' = Some ?init"
    "\<forall>r\<in>set rs. \<exists>fs. getitem r ''feature_scores'' = Inr (PDict fs) \<and> keys_of r = map fst fs"
    by simp_all
  from ih(1) r(4) have "initial_features l' =
           (case initial_features l of
              Some ks \<Rightarrow> Some ks
            | None \<Rightarrow> (case r # rs of [] \<Rightarrow> None | r # rest \<Rightarrow> Some (keys_of r)))"
    by (simp split: option.splits)
  with ih(2) r(2,4) show ?case by simp
qed

section \<open>The threshold selector, \<open>select_features\<close>\<close>

text \<open>
  C1. On a record whose sign condition does not hold, the loop returns at that record
  exactly when the record's \<open>TE\<close> is strictly greater than the threshold; a record whose
  \<open>TE\<close> equals the threshold does not stop the scan, which goes on with the rest of
  the trace.
\<close>

theorem score_stop_iff_TE_above_threshold:
  assumes "getitem r ''TE'' = Inr (PNum te)"
    and "getitem r ''feature_scores'' = Inr (PDict fs)"
    and "fs \<noteq> []"
    and "direction = ''backward'' \<and> \<not> 0 < Min (snd ` set fs)
         \<or> direction = ''forward'' \<and> \<not> Max (snd ` set fs) < 0"
    and "stop l = False"
  shows "((\<exists>v. select_features_loop threshold direction l [r] = Returned v) \<longleftrightarrow> threshold < te)
       \<and> (te = threshold \<longrightarrow>
            select_features_loop threshold direction l (r # rest) =
            select_features_loop threshold direction
              \<lparr>stop = False,
               initial_features =
                 Some (case initial_features l of None \<Rightarrow> map fst fs | Some ks \<Rightarrow> ks)\<rparr> rest)"
proof -
  have s: "sign_stop direction fs = Inr False"
    using assms(3,4) by (elim disjE conjE) (simp_all add: sign_stop_backward sign_stop_forward)
  from assms(4) have d: "direction = ''forward'' \<or> direction = ''backward''" by blast
  show ?thesis
    using assms(5) d
    by (auto simp del: select_features_loop.simps(2) simp add: loop_step [OF assms(1,2) s d])
qed

theorem score_stop_iff_TE_above_threshold_witness:
  "(\<exists>v. select_features_loop 1 ''backward'' \<lparr>stop = False, initial_features = None\<rparr>
          [iteration_result (PNum 2) (PDict [(0, -1), (1, 3)])] = Returned v)
   \<and> \<not> (\<exists>v. select_features_loop 1 ''backward'' \<lparr>stop = False, initial_features = None\<rparr>
          [iteration_result (PNum 1) (PDict [(0, -1), (1, 3)])] = Returned v)
   \<and> select_features [iteration_result (PNum 1) (PDict [(0, -1), (1, 3)]),
                       iteration_result (PNum 2) (PDict [(1, 3)])] 1 ''backward''
       = Inr (ListOfKeys [1])"
proof -
  have a: "(\<exists>v. select_features_loop 1 ''backward'' \<lparr>stop = False, initial_features = None\<rparr>
          [iteration_result (PNum 2) (PDict [(0, -1), (1, 3)])] = Returned v) \<longleftrightarrow> (1::real) < 2"
    using score_stop_iff_TE_above_threshold
      [of "iteration_result (PNum 2) (PDict [(0, -1), (1, 3)])" 2 "[(0, -1), (1, 3)]"
          "''backward''" "\<lparr>stop = False, initial_features = None\<rparr>" 1 "[]"]
    by simp
  have b: "(\<exists>v. select_features_loop 1 ''backward'' \<lparr>stop = False, initial_features = None\<rparr>
          [iteration_result (PNum 1) (PDict [(0, -1), (1, 3)])] = Returned v) \<longleftrightarrow> (1::real) < 1"
    using score_stop_iff_TE_above_threshold
      [of "iteration_result (PNum 1) (PDict [(0, -1), (1, 3)])" 1 "[(0, -1), (1, 3)]"
          "''backward''" "\<lparr>stop = False, initial_features = None\<rparr>" 1 "[]"]
    by simp
  have c: "select_features [iteration_result (PNum 1) (PDict [(0, -1), (1, 3)]),
                       iteration_result (PNum 2) (PDict [(1, 3)])] 1 ''backward''
       = Inr (ListOfKeys [1])"
    by (simp add: select_features_def sign_stop_def Let_def)
  from a b c show ?thesis by simp
qed

text \<open>
  C2. On a non-empty trace where no record sets \<open>stop\<close> (every \<open>TE\<close> is at most the
  threshold and no record has a strictly positive minimum score), the backward selection
  returns the keys of the last record, which are not empty.
\<close>

theorem backward_fallback_last_record:
  assumes "results \<noteq> []"
    and "\<forall>r\<in>set results. no_stop threshold ''backward'' r"
  shows "select_features results threshold ''backward'' = Inr (ListOfKeys (keys_of (last results)))
       \<and> keys_of (last results) \<noteq> []"
proof -
  from assms obtain r rs where res: "results = r # rs" by (cases results) auto
  have "select_features_loop threshold ''backward'' \<lparr>stop = False, initial_features = None\<rparr> (results @ []) =
        Exhausted \<lparr>stop = False, initial_features = Some (keys_of r)\<rparr>"
    using loop_no_stop [OF assms(2), of "\<lparr>stop = False, initial_features = None\<rparr>" "[]"] res
    by simp
  then have ex: "select_features_loop threshold ''backward'' \<lparr>stop = False, initial_features = None\<rparr> results =
        Exhausted \<lparr>stop = False, initial_features = Some (keys_of r)\<rparr>" by simp
  from assms have "no_stop threshold ''backward'' (last results)" by simp
  then obtain fs where fs: "getitem (last results) ''feature_scores'' = Inr (PDict fs)"
    "fs \<noteq> []" "keys_of (last results) = map fst fs"
    using no_stopD by blast
  show ?thesis
    using fs assms(1) by (simp add: select_features_def ex list_case_nonempty)
qed

theorem backward_fallback_last_record_witness:
  "[iteration_result (PNum (1/2)) (PDict [(0, -1), (1, 2)]),
    iteration_result (PNum (7/10)) (PDict [(1, -1/2)])] \<noteq> []
   \<and> no_stop 1 ''backward'' (iteration_result (PNum (1/2)) (PDict [(0, -1), (1, 2)]))
   \<and> no_stop 1 ''backward'' (iteration_result (PNum (7/10)) (PDict [(1, -1/2)]))
   \<and> select_features [iteration_result (PNum (1/2)) (PDict [(0, -1), (1, 2)]),
                       iteration_result (PNum (7/10)) (PDict [(1, -1/2)])] 1 ''backward''
       = Inr (ListOfKeys [1])"
proof -
  let ?t = "[iteration_result (PNum (1/2)) (PDict [(0, -1), (1, 2)]),
             iteration_result (PNum (7/10)) (PDict [(1, -1/2)])]"
  have n: "?t \<noteq> []" by simp
  have h: "\<forall>r\<in>set ?t. no_stop 1 ''backward'' r"
    by (simp add: no_stop_iteration_result)
  from backward_fallback_last_record [OF n h] n h show ?thesis by simp
qed

text \<open>
  C3. On a non-empty trace where no record sets \<open>stop\<close> (every \<open>TE\<close> is at most the
  threshold and no record has a strictly negative maximum score), the forward selection
  returns the initial features, the keys of the first record.
\<close>

theorem forward_fallback_initial_universe:
  assumes "results \<noteq> []"
    and "\<forall>r\<in>set results. no_stop threshold ''forward'' r"
  shows "select_features results threshold ''forward'' = Inr (ListOfKeys (keys_of (hd results)))"
proof -
  from assms obtain r rs where res: "results = r # rs" by (cases results) auto
  have "select_features_loop threshold ''forward'' \<lparr>stop = False, initial_features = None\<rparr> (results @ []) =
        Exhausted \<lparr>stop = False, initial_features = Some (keys_of r)\<rparr>"
    using loop_no_stop [OF assms(2), of "\<lparr>stop = False, initial_features = None\<rparr>" "[]"] res
    by simp
  then have ex: "select_features_loop threshold ''forward'' \<lparr>stop = False, initial_features = None\<rparr> results =
        Exhausted \<lparr>stop = False, initial_features = Some (keys_of r)\<rparr>" by simp
  from res have "keys_of r = keys_of (hd results)" by simp
  then show ?thesis
    by (simp add: select_features_def ex)
qed

theorem forward_fallback_initial_universe_witness:
  "[iteration_result (PNum (1/2)) (PDict [(0, -1), (1, 2)]),
    iteration_result (PNum (7/10)) (PDict [(1, 1/2)])] \<noteq> []
   \<and> no_stop 1 ''forward'' (iteration_result (PNum (1/2)) (PDict [(0, -1), (1, 2)]))
   \<and> no_stop 1 ''forward'' (iteration_result (PNum (7/10)) (PDict [(1, 1/2)]))
   \<and> select_features [iteration_result (PNum (1/2)) (PDict [(0, -1), (1, 2)]),
                       iteration_result (PNum (7/10)) (PDict [(1, 1/2)])] 1 ''forward''
       = Inr (ListOfKeys [0, 1])"
proof -
  let ?t = "[iteration_result (PNum (1/2)) (PDict [(0, -1), (1, 2)]),
             iteration_result (PNum (7/10)) (PDict [(1, 1/2)])]"
  have n: "?t \<noteq> []" by simp
  have h: "\<forall>r\<in>set ?t. no_stop 1 ''forward'' r"
    by (simp add: no_stop_iteration_result)
  from forward_fallback_initial_universe [OF n h] n h show ?thesis by simp
qed

text \<open>
  C4. When the scores of the first record (a non-empty dictionary) are all strictly
  negative, the forward selection returns at that record with the empty set, the initial
  features minus themselves. On a record whose \<open>TE\<close> is not above the threshold, the
  forward loop returns at the record exactly when the maximum of its scores is strictly
  negative.
\<close>

theorem forward_sign_stop:
  assumes "getitem r ''TE'' = Inr (PNum te)"
    and "getitem r ''feature_scores'' = Inr (PDict fs)"
    and "fs \<noteq> []"
  shows "((\<forall>x\<in>set fs. snd x < 0) \<longrightarrow>
            select_features (r # rest) threshold ''forward'' = Inr (ListOfSet {}))
       \<and> (\<not> threshold < te \<and> stop l = False \<longrightarrow>
            ((\<exists>v. select_features_loop threshold ''forward'' l [r] = Returned v)
              \<longleftrightarrow> Max (snd ` set fs) < 0))"
proof -
  have s: "sign_stop ''forward'' fs = Inr (Max (snd ` set fs) < 0)"
    using assms(3) by (rule sign_stop_forward)
  have d: "''forward'' = ''forward'' \<or> ''forward'' = ''backward''" by simp
  note step = loop_step [OF assms(1,2) s d]
  have a: "select_features (r # rest) threshold ''forward'' = Inr (ListOfSet {})"
    if "\<forall>x\<in>set fs. snd x < 0"
  proof -
    from that assms(3) have "Max (snd ` set fs) < 0" by simp
    then show ?thesis
      by (simp del: select_features_loop.simps(2) add: select_features_def step)
  qed
  have b: "(\<exists>v. select_features_loop threshold ''forward'' l [r] = Returned v)
              \<longleftrightarrow> Max (snd ` set fs) < 0"
    if "\<not> threshold < te" "stop l = False"
    using that by (auto simp del: select_features_loop.simps(2) Max_less_iff simp add: step)
  from a b show ?thesis by blast
qed

theorem forward_sign_stop_witness:
  "select_features [iteration_result (PNum 0) (PDict [(0, -1), (1, -2)]),
                    iteration_result (PNum 0) (PDict [(1, 3)])] 5 ''forward''
     = Inr (ListOfSet {})
   \<and> \<not> (\<exists>v. select_features_loop 5 ''forward'' \<lparr>stop = False, initial_features = None\<rparr>
              [iteration_result (PNum 0) (PDict [(0, -1), (1, 2)])] = Returned v)"
proof -
  have a: "select_features [iteration_result (PNum 0) (PDict [(0, -1), (1, -2)]),
                    iteration_result (PNum 0) (PDict [(1, 3)])] 5 ''forward''
     = Inr (ListOfSet {})"
    using forward_sign_stop
      [of "iteration_result (PNum 0) (PDict [(0, -1), (1, -2)])" 0 "[(0, -1), (1, -2)]"
          "[iteration_result (PNum 0) (PDict [(1, 3)])]" 5]
    by simp
  have b: "\<not> (\<exists>v. select_features_loop 5 ''forward'' \<lparr>stop = False, initial_features = None\<rparr>
              [iteration_result (PNum 0) (PDict [(0, -1), (1, 2)])] = Returned v)"
    using forward_sign_stop
      [of "iteration_result (PNum 0) (PDict [(0, -1), (1, 2)])" 0 "[(0, -1), (1, 2)]"
          "[]" 5 "\<lparr>stop = False, initial_features = None\<rparr>"]
    by (simp del: select_features_loop.simps(2))
  from a b show ?thesis by simp
qed

text \<open>
  C7. When the scan reaches a record (every record before it passes without stopping)
  whose \<open>TE\<close> is not a number, or whose \<open>feature_scores\<close> is not a dictionary or is the
  empty dictionary, the call raises and returns no features: the two \<open>isinstance\<close>
  assertions fail for the first two, and \<open>min\<close> or \<open>max\<close> of no values raises
  \<open>ValueError\<close> for the third.
\<close>

theorem invalid_record_fails:
  assumes "direction = ''forward'' \<or> direction = ''backward''"
    and "\<forall>p\<in>set pre. no_stop threshold direction p"
    and "getitem r ''TE'' = Inr te"
    and "getitem r ''feature_scores'' = Inr fsv"
  shows "(te \<notin> range PNum \<longrightarrow>
            select_features (pre @ r # post) threshold direction =
            Inl (AssertionError ''TE score must be a number''))
       \<and> (te \<in> range PNum \<and> fsv \<notin> range PDict \<longrightarrow>
            select_features (pre @ r # post) threshold direction =
            Inl (AssertionError ''feature_scores must be a dictionary''))
       \<and> (te \<in> range PNum \<and> fsv = PDict [] \<longrightarrow>
            select_features (pre @ r # post) threshold direction = Inl ValueError)"
proof -
  let ?l0 = "\<lparr>stop = False, initial_features = None\<rparr>"
  obtain l1 where l1:
    "select_features_loop threshold direction ?l0 (pre @ r # post) =
     select_features_loop threshold direction l1 (r # post)"
    using loop_no_stop [OF assms(2,1), of ?l0 "r # post"] by simp
  have a: "select_features (pre @ r # post) threshold direction =
            Inl (AssertionError ''TE score must be a number'')" if "te \<notin> range PNum"
    using assms(1)
    by (simp del: select_features_loop.simps(2)
        add: select_features_def l1 loop_bad_TE [OF assms(3) that])
  have b: "select_features (pre @ r # post) threshold direction =
            Inl (AssertionError ''feature_scores must be a dictionary'')"
    if "te \<in> range PNum" "fsv \<notin> range PDict"
  proof -
    from that(1) assms(3) obtain x where "getitem r ''TE'' = Inr (PNum x)" by auto
    from loop_bad_feature_scores [OF this assms(4) that(2)] assms(1)
    show ?thesis by (simp del: select_features_loop.simps(2) add: select_features_def l1)
  qed
  have c: "select_features (pre @ r # post) threshold direction = Inl ValueError"
    if "te \<in> range PNum" "fsv = PDict []"
  proof -
    from that(1) assms(3) obtain x where x: "getitem r ''TE'' = Inr (PNum x)" by auto
    from assms(4) that(2) have "getitem r ''feature_scores'' = Inr (PDict [])" by simp
    from loop_empty_feature_scores [OF x this assms(1)] assms(1)
    show ?thesis by (simp del: select_features_loop.simps(2) add: select_features_def l1)
  qed
  from a b c show ?thesis by blast
qed

theorem invalid_record_fails_witness:
  "no_stop 1 ''backward'' (iteration_result (PNum 0) (PDict [(0, -1), (1, 2)]))
   \<and> select_features [iteration_result (PNum 0) (PDict [(0, -1), (1, 2)]),
                       iteration_result (PStr ''high'') (PDict [(1, 2)])] 1 ''backward''
       = Inl (AssertionError ''TE score must be a number'')
   \<and> select_features [iteration_result (PNum 0) (PDict [(0, -1), (1, 2)]),
                       iteration_result (PNum 0) PNone] 1 ''backward''
       = Inl (AssertionError ''feature_scores must be a dictionary'')
   \<and> select_features [iteration_result (PNum 0) (PDict [(0, -1), (1, 2)]),
                       iteration_result (PNum 3) (PDict [])] 1 ''backward''
       = Inl ValueError"
proof -
  let ?p = "iteration_result (PNum 0) (PDict [(0, -1), (1, 2)])"
  have d: "''backward'' = ''forward'' \<or> ''backward'' = ''backward''" by simp
  have p: "no_stop 1 ''backward'' ?p" by (simp add: no_stop_iteration_result)
  then have h: "\<forall>p\<in>set [?p]. no_stop 1 ''backward'' p" by simp
  have a: "select_features ([?p] @ iteration_result (PStr ''high'') (PDict [(1, 2)]) # []) 1 ''backward''
       = Inl (AssertionError ''TE score must be a number'')"
    using invalid_record_fails [OF d h, of "iteration_result (PStr ''high'') (PDict [(1, 2)])"
        "PStr ''high''" "PDict [(1, 2)]" "[]"]
    by auto
  have b: "select_features ([?p] @ iteration_result (PNum 0) PNone # []) 1 ''backward''
       = Inl (AssertionError ''feature_scores must be a dictionary'')"
    using invalid_record_fails [OF d h, of "iteration_result (PNum 0) PNone"
        "PNum 0" "PNone" "[]"]
    by auto
  have c: "select_features ([?p] @ iteration_result (PNum 3) (PDict []) # []) 1 ''backward''
       = Inl ValueError"
    using invalid_record_fails [OF d h, of "iteration_result (PNum 3) (PDict [])"
        "PNum 3" "PDict []" "[]"]
    by auto
  from p a b c show ?thesis by simp
qed

text \<open>
  C9. A backward selection returns the keys of the record it stops at, and nothing makes
  these keys of the first record: on a trace whose second record has a key the first has
  not, the returned feature 5 is outside the first record's key set.
\<close>

theorem selection_within_universe_counterexample:
  "select_features [iteration_result (PNum 0) (PDict [(0, -1)]),
                    iteration_result (PNum 0) (PDict [(5, 1)])] 10 ''backward''
     = Inr (ListOfKeys [5])
   \<and> \<not> features (ListOfKeys [5])
        \<subseteq> set (keys_of (hd [iteration_result (PNum 0) (PDict [(0, -1)]),
                              iteration_result (PNum 0) (PDict [(5, 1)])]))"
  by (simp add: select_features_def sign_stop_def)

text \<open>
  C9, as amended. Whenever \<open>select_features\<close> returns (the trace is then non-empty and
  the direction valid), a forward selection returns a subset of the first record's keys,
  and a backward selection returns the key list of a record of the trace, which is a
  subset of the first record's keys when every record's keys are.
\<close>

theorem selection_within_trace:
  assumes "select_features results threshold direction = Inr v"
  shows "results \<noteq> []
       \<and> (direction = ''forward'' \<longrightarrow> features v \<subseteq> set (keys_of (hd results)))
       \<and> (direction = ''backward'' \<longrightarrow>
            (\<exists>r\<in>set results. v = ListOfKeys (keys_of r))
            \<and> ((\<forall>r\<in>set results. set (keys_of r) \<subseteq> set (keys_of (hd results)))
                 \<longrightarrow> features v \<subseteq> set (keys_of (hd results))))"
proof -
  let ?l0 = "\<lparr>stop = False, initial_features = None\<rparr>"
  let ?scan = "select_features_loop threshold direction ?l0 results"
  from assms have d: "direction = ''forward'' \<or> direction = ''backward''"
    by (auto simp add: select_features_def split: if_splits)
  from assms have ne: "results \<noteq> []"
    using d by (auto simp add: select_features_def)
  have fwd: "features v \<subseteq> set (keys_of (hd results))" if f: "direction = ''forward''"
  proof (cases ?scan)
    case (Raised e)
    with assms f show ?thesis by (simp add: select_features_def)
  next
    case (Returned w)
    with assms f have "w = v" by (simp add: select_features_def)
    with Returned f loop_forward_returned [of threshold ?l0 results v]
    show ?thesis by simp
  next
    case (Exhausted l')
    from loop_exhausted [OF Exhausted d] ne
    have "initial_features l' = Some (keys_of (hd results))"
      by (cases results) simp_all
    with assms f Exhausted have "v = ListOfKeys (keys_of (hd results))"
      by (simp add: select_features_def)
    then show ?thesis by simp
  qed
  have bwd: "\<exists>r\<in>set results. v = ListOfKeys (keys_of r)" if b: "direction = ''backward''"
  proof (cases ?scan)
    case (Raised e)
    with assms b show ?thesis by (simp add: select_features_def)
  next
    case (Returned w)
    with assms b have "w = v" by (simp add: select_features_def)
    with Returned b loop_backward_returned [of threshold ?l0 results v]
    show ?thesis by simp
  next
    case (Exhausted l')
    from ne have "last results \<in> set results" by simp
    with loop_exhausted [OF Exhausted d] obtain fs
      where fs: "getitem (last results) ''feature_scores'' = Inr (PDict fs)"
        "keys_of (last results) = map fst fs"
      by blast
    with assms b Exhausted ne have "v = ListOfKeys (keys_of (last results))"
      by (simp add: select_features_def list_case_nonempty)
    with \<open>last results \<in> set results\<close> show ?thesis by blast
  qed
  have mono: "features v \<subseteq> set (keys_of (hd results))"
    if "direction = ''backward''"
      and "\<forall>r\<in>set results. set (keys_of r) \<subseteq> set (keys_of (hd results))"
  proof -
    from bwd [OF that(1)] obtain r where "r \<in> set results" "v = ListOfKeys (keys_of r)"
      by blast
    with that(2) show ?thesis by simp
  qed
  from ne fwd bwd mono show ?thesis by blast
qed

theorem selection_within_trace_witness:
  "select_features [iteration_result (PNum 0) (PDict [(0, -1), (1, 2)]),
                    iteration_result (PNum 0) (PDict [(1, 2)])] 10 ''backward''
     = Inr (ListOfKeys [1])
   \<and> features (ListOfKeys [1])
        \<subseteq> set (keys_of (hd [iteration_result (PNum 0) (PDict [(0, -1), (1, 2)]),
                              iteration_result (PNum 0) (PDict [(1, 2)])]))
   \<and> select_features [iteration_result (PNum 0) (PDict [(0, 1), (1, 2)]),
                       iteration_result (PNum 0) (PDict [(1, -2)])] 10 ''forward''
     = Inr (ListOfSet {0})
   \<and> features (ListOfSet {0})
        \<subseteq> set (keys_of (hd [iteration_result (PNum 0) (PDict [(0, 1), (1, 2)]),
                              iteration_result (PNum 0) (PDict [(1, -2)])]))"
proof -
  let ?b = "[iteration_result (PNum 0) (PDict [(0, -1), (1, 2)]),
             iteration_result (PNum 0) (PDict [(1, 2)])]"
  let ?f = "[iteration_result (PNum 0) (PDict [(0, 1), (1, 2)]),
             iteration_result (PNum 0) (PDict [(1, -2)])]"
  have b: "select_features ?b 10 ''backward'' = Inr (ListOfKeys [1])"
    by (simp add: select_features_def sign_stop_def)
  have f: "select_features ?f 10 ''forward'' = Inr (ListOfSet {0})"
    by (auto simp add: select_features_def sign_stop_def)
  from selection_within_trace [OF b]
  have "features (ListOfKeys [1]) \<subseteq> set (keys_of (hd ?b))" by simp
  moreover from selection_within_trace [OF f]
  have "features (ListOfSet {0}) \<subseteq> set (keys_of (hd ?f))" by simp
  ultimately show ?thesis using b f by simp
qed

text \<open>
  C10. On the empty trace the loop body never runs and \<open>initial_features\<close> stays
  \<open>None\<close>; the code after the loop raises \<open>IndexError\<close> (\<open>results[-1]\<close>) for
  \<open>backward\<close> and \<open>TypeError\<close> (\<open>list(None)\<close>) for \<open>forward\<close>, and no direction
  yields a returned value.
\<close>

theorem empty_trace_fails:
  "select_features [] threshold ''backward'' = Inl IndexError
   \<and> select_features [] threshold ''forward'' = Inl TypeError
   \<and> select_features [] threshold direction \<noteq> Inr v
   \<and> select_features_loop threshold direction l [] = Exhausted l"
  by (simp add: select_features_def)

section \<open>The count selector, \<open>select_n_features\<close>\<close>

text \<open>
  C5. On the trace as the claim orders it (\<open>{}\<close>, then \<open>{0: 0.5}\<close>, then
  \<open>{0: 0.5, 1: 0.3}\<close>) the first record has no keys, so \<open>num_total_features\<close> is 0 and
  \<open>n = 1\<close> fails the assertion \<open>n <= num_total_features\<close>: no features are returned.
\<close>

theorem count_forward_example_counterexample:
  "select_n_features
     [[''feature_scores'' \<mapsto> PDict []],
      [''feature_scores'' \<mapsto> PDict [(0, 1/2)]],
      [''feature_scores'' \<mapsto> PDict [(0, 1/2), (1, 3/10)]]] 1 ''forward''
   = Inl (AssertionError ''n must be <= 0'')"
  by (simp add: select_n_features_def getitem_def str_nat.simps)

text \<open>
  C5, as amended. On the same three records in the order that makes the first record's
  keys the universe \<open>{0, 1}\<close> (\<open>{0: 0.5, 1: 0.3}\<close>, then \<open>{0: 0.5}\<close>, then \<open>{}\<close>), the
  forward count selection with \<open>n = 1\<close> stops at the second record, whose key count is
  \<open>2 - 1\<close>, and returns the universe minus that record's keys, \<open>{1}\<close>; in the claim's
  order the call raises the assertion error.
\<close>

theorem count_forward_example:
  "select_n_features
     [[''feature_scores'' \<mapsto> PDict [(0, 1/2), (1, 3/10)]],
      [''feature_scores'' \<mapsto> PDict [(0, 1/2)]],
      [''feature_scores'' \<mapsto> PDict []]] 1 ''forward''
   = Inr (ListOfSet {1})
   \<and> select_n_features
     [[''feature_scores'' \<mapsto> PDict []],
      [''feature_scores'' \<mapsto> PDict [(0, 1/2)]],
      [''feature_scores'' \<mapsto> PDict [(0, 1/2), (1, 3/10)]]] 1 ''forward''
   = Inl (AssertionError ''n must be <= 0'')"
  by (simp add: select_n_features_def getitem_def str_nat.simps)

text \<open>
  C6. The backward count selection returns the keys of the first record that has \<open>n\<close>
  keys: \<open>[0, 1]\<close> for \<open>n = 2\<close> on the records \<open>{0: 1, 1: 2, 2: 3}\<close>,
  \<open>{0: 1, 1: 2}\<close>, \<open>{0: 1}\<close>. Without the second record no record has two keys: the
  loop ends without a match and the function ends without a \<open>return\<close>, so the call
  yields \<open>None\<close> and raises nothing.
\<close>

theorem count_backward_no_match_returns_None:
  "select_n_features
     [iteration_result (PNum 0) (PDict [(0, 1), (1, 2), (2, 3)]),
      iteration_result (PNum 0) (PDict [(0, 1), (1, 2)]),
      iteration_result (PNum 0) (PDict [(0, 1)])] 2 ''backward''
   = Inr (ListOfKeys [0, 1])
   \<and> select_n_features
     [iteration_result (PNum 0) (PDict [(0, 1), (1, 2), (2, 3)]),
      iteration_result (PNum 0) (PDict [(0, 1)])] 2 ''backward''
   = Inr RNone"
  by (simp add: select_n_features_def)

text \<open>
  C8. When \<open>n\<close> is below 1 or above the key count of the first record's
  \<open>feature_scores\<close>, the call raises an assertion error whatever the other records are
  (they are never read): \<open>Invalid direction\<close> for a wrong direction, else
  \<open>n must be <= N\<close> for \<open>n\<close> above the key count \<open>N\<close>, else \<open>n must be > 0\<close>.
\<close>

theorem count_out_of_range_fails:
  assumes "getitem first ''feature_scores'' = Inr (PDict fs)"
    and "n < 1 \<or> int (length fs) < n"
  shows "select_n_features (first # others) n direction =
         Inl (AssertionError
               (if direction \<noteq> ''forward'' \<and> direction \<noteq> ''backward''
                then ''Invalid direction''
                else if int (length fs) < n then ''n must be <= '' @ str_nat (length fs)
                else ''n must be > 0''))"
  using assms by (auto simp add: select_n_features_def)

theorem count_out_of_range_fails_witness:
  "select_n_features
     [iteration_result (PNum 0) (PDict [(0, 1), (1, 2)]), iteration_result PNone PNone]
     0 ''backward'' = Inl (AssertionError ''n must be > 0'')
   \<and> select_n_features
     [iteration_result (PNum 0) (PDict [(0, 1), (1, 2)]), iteration_result PNone PNone]
     3 ''forward'' = Inl (AssertionError ''n must be <= 2'')"
proof -
  have a: "select_n_features
     (iteration_result (PNum 0) (PDict [(0, 1), (1, 2)]) # [iteration_result PNone PNone])
     0 ''backward'' = Inl (AssertionError ''n must be > 0'')"
    using count_out_of_range_fails
      [of "iteration_result (PNum 0) (PDict [(0, 1), (1, 2)])" "[(0, 1), (1, 2)]" 0
          "[iteration_result PNone PNone]" "''backward''"]
    by simp
  have b: "select_n_features
     (iteration_result (PNum 0) (PDict [(0, 1), (1, 2)]) # [iteration_result PNone PNone])
     3 ''forward'' = Inl (AssertionError ''n must be <= 2'')"
    using count_out_of_range_fails
      [of "iteration_result (PNum 0) (PDict [(0, 1), (1, 2)])" "[(0, 1), (1, 2)]" 3
          "[iteration_result PNone PNone]" "''forward''"]
    by (simp add: str_nat.simps)
  from a b show ?thesis by simp
qed

end
